theory Spec2Isabelle
  imports Complex_Main "HOL-Library.Word" "HOL-Library.AList"
begin

section \<open>The Sonicare BLE parser (\<open>src/sonicare_ble/parser.py\<close>)\<close>

text \<open>
  The development embeds the class \<open>SonicareBluetoothDeviceData\<close>: advertisement
  processing (\<open>_start_update\<close>), the poll cadence decision (\<open>poll_needed\<close>), the
  characteristic dispatch (\<open>process_characteristic_value\<close>) and the poll cycle
  (\<open>async_poll\<close>). Mutation of \<open>self\<close> is explicit state passing over the record
  \<open>device_data\<close>; a raised Python exception is the left summand of a sum type.
\<close>

subsection \<open>Values, exceptions and the constants of \<open>const.py\<close>\<close>

type_synonym byte = "8 word"
type_synonym uuid = string

text \<open>
  Instances of Python's \<open>Exception\<close>: the \<open>IndexError\<close> of \<open>value[0]\<close> on an
  empty value, the \<open>AttributeError\<close> of \<open>.properties\<close> on a characteristic that the
  lookup did not find, and whatever error the BLE transport raises.
\<close>

datatype exn = IndexError | AttributeError | TransportError string

text \<open>
  The module \<open>const.py\<close> is imported by the parser but its values are not part of the
  sources at hand, so the seven characteristic identifiers and the three cadence
  constants are parameters of the model.
\<close>

record const =
  CHARACTERISTIC_BATTERY_LEVEL :: uuid
  CHARACTERISTIC_BRUSHING_TIME :: uuid
  CHARACTERISTIC_UPDATED_HANDLE_SESSION_STATE :: uuid
  CHARACTERISTIC_LOADED_SESSION_ID :: uuid
  CHARACTERISTIC_AVAILABLE_BRUSHING_ROUTINE_4080 :: uuid
  CHARACTERISTIC_INTENSITY :: uuid
  CHARACTERISTIC_ROUTINE_LENGTH :: uuid
  NOT_BRUSHING_UPDATE_INTERVAL_SECONDS :: real
  TIMEOUT_RECENTLY_BRUSHING :: real
  BRUSHING_UPDATE_INTERVAL_SECONDS :: real

text \<open>The identifiers that the dispatch of \<open>process_characteristic_value\<close> knows.\<close>

definition known_characteristics :: "const \<Rightarrow> uuid list" where
  "known_characteristics c =
     [CHARACTERISTIC_BATTERY_LEVEL c,
      CHARACTERISTIC_UPDATED_HANDLE_SESSION_STATE c,
      CHARACTERISTIC_BRUSHING_TIME c,
      CHARACTERISTIC_AVAILABLE_BRUSHING_ROUTINE_4080 c,
      CHARACTERISTIC_ROUTINE_LENGTH c,
      CHARACTERISTIC_INTENSITY c,
      CHARACTERISTIC_LOADED_SESSION_ID c]"

text \<open>The members of \<open>Units\<close> and \<open>SensorDeviceClass\<close> that the parser uses.\<close>

datatype units = PERCENTAGE
datatype sensor_device_class = BATTERY

text \<open>A native sensor value is a Python int or a string.\<close>

datatype native_value = IntVal int | StrVal string

datatype Models = HX6340

record ModelDescription =
  model_device_type :: string

definition DEVICE_TYPES :: "Models \<Rightarrow> ModelDescription" where
  "DEVICE_TYPES m = (case m of HX6340 \<Rightarrow> \<lparr>model_device_type = ''HX6340''\<rparr>)"

definition STATES :: "(int \<times> string) list" where
  "STATES =
     [(0, ''off''), (1, ''standby''), (2, ''brushing''), (3, ''charging''),
      (4, ''shutdown''), (5, ''validate''), (6, ''unknown6''), (7, ''unknown7'')]"

definition SONICARE_MANUFACTURER :: int where
  "SONICARE_MANUFACTURER = 477"

subsection \<open>Python built-ins used by the parser\<close>

text \<open>\<open>xs[i]\<close> for a non-negative index: \<open>IndexError\<close> out of range.\<close>

definition getitem :: "'a list \<Rightarrow> nat \<Rightarrow> exn + 'a" where
  "getitem xs i = (if i < length xs then Inr (xs ! i) else Inl IndexError)"

text \<open>\<open>d.get(k, default)\<close> on a dictionary held as an association list.\<close>

definition dict_get :: "('k \<times> 'v) list \<Rightarrow> 'k \<Rightarrow> 'v \<Rightarrow> 'v" where
  "dict_get d k dflt = (case map_of d k of None \<Rightarrow> dflt | Some v \<Rightarrow> v)"

text \<open>\<open>str(n)\<close> of an int, as the f-string \<open>{value[0]}\<close> formats it: decimal digits.\<close>

definition digit_char :: "nat \<Rightarrow> char" where
  "digit_char n = ''0123456789'' ! n"

fun str_nat :: "nat \<Rightarrow> string" where
  "str_nat n = (if n < 10 then [digit_char n] else str_nat (n div 10) @ [digit_char (n mod 10)])"

declare str_nat.simps [simp del]

definition str_int :: "int \<Rightarrow> string" where
  "str_int i = (if i < 0 then CHR ''-'' # str_nat (nat (- i)) else str_nat (nat i))"

subsection \<open>The accumulator inherited from \<open>BluetoothData\<close>\<close>

record sensor_description =
  device_class :: "sensor_device_class option"
  native_unit_of_measurement :: "units option"

record sensor_value =
  sensor_name :: string
  native_value :: native_value

text \<open>
  The state of one \<open>SonicareBluetoothDeviceData\<close> object. The dictionaries of the
  base class are association lists in insertion order, as Python dictionaries are; the
  parser only ever uses the default device id, so the per-device fields are options.
  \<open>brushing\<close> and \<open>last_brush\<close> are the attributes \<open>_brushing\<close> and
  \<open>_last_brush\<close>. A Python float is a \<open>real\<close> here: times and intervals are
  compared and subtracted exactly, without rounding and without NaN.
\<close>

record device_data =
  title :: "string option"
  device_name :: "string option"
  device_type :: "string option"
  device_manufacturer :: "string option"
  sensor_descriptions :: "(string \<times> sensor_description) list"
  sensor_values :: "(string \<times> sensor_value) list"
  binary_sensor_values :: "(string \<times> bool) list"
  brushing :: bool
  last_brush :: real

text \<open>\<open>__init__\<close>: the empty accumulator of the base class, not brushing, time \<open>0.0\<close>.\<close>

definition init :: device_data where
  "init = \<lparr>title = None, device_name = None, device_type = None,
           device_manufacturer = None, sensor_descriptions = [], sensor_values = [],
           binary_sensor_values = [], brushing = False, last_brush = 0\<rparr>"

text \<open>
  Modelled from the spec: the recording operations \<open>set_device_manufacturer\<close>,
  \<open>set_device_type\<close>, \<open>set_device_name\<close>, \<open>set_title\<close> and \<open>update_sensor\<close>
  of the base class \<open>BluetoothData\<close> (a library the parser inherits from, not among
  the sources). Section 4.3 of the specification: an identity field is set by value,
  and recording a sensor overwrites any prior value for the same key (latest wins)
  and keeps the place of a key that is already there.
\<close>

definition set_device_manufacturer :: "string \<Rightarrow> device_data \<Rightarrow> device_data" where
  "set_device_manufacturer m d = d\<lparr>device_manufacturer := Some m\<rparr>"

definition set_device_type :: "string \<Rightarrow> device_data \<Rightarrow> device_data" where
  "set_device_type t d = d\<lparr>device_type := Some t\<rparr>"

definition set_device_name :: "string \<Rightarrow> device_data \<Rightarrow> device_data" where
  "set_device_name n d = d\<lparr>device_name := Some n\<rparr>"

definition set_title :: "string \<Rightarrow> device_data \<Rightarrow> device_data" where
  "set_title t d = d\<lparr>title := Some t\<rparr>"

definition update_sensor ::
  "string \<Rightarrow> units option \<Rightarrow> native_value \<Rightarrow> sensor_device_class option \<Rightarrow> string
     \<Rightarrow> device_data \<Rightarrow> device_data" where
  "update_sensor key unit val cls nm d =
     d\<lparr>sensor_descriptions :=
         AList.update key \<lparr>device_class = cls, native_unit_of_measurement = unit\<rparr>
           (sensor_descriptions d),
       sensor_values :=
         AList.update key \<lparr>sensor_name = nm, native_value = val\<rparr> (sensor_values d)\<rparr>"

text \<open>
  Modelled from the spec: \<open>_finish_update\<close> of the base class \<open>BluetoothData\<close>
  (not among the sources), the finalize operation of section 4.3: the snapshot holds
  the identity, the sensor readings by key and the binary sensor readings by key as
  they are at that moment, and the accumulator is not cleared.
\<close>

record sensor_update =
  update_title :: "string option"
  update_device_name :: "string option"
  update_device_model :: "string option"
  update_device_manufacturer :: "string option"
  entity_descriptions :: "(string \<times> sensor_description) list"
  entity_values :: "(string \<times> sensor_value) list"
  binary_entity_values :: "(string \<times> bool) list"

definition finish_update :: "device_data \<Rightarrow> sensor_update" where
  "finish_update d =
     \<lparr>update_title = title d, update_device_name = device_name d,
      update_device_model = device_type d,
      update_device_manufacturer = device_manufacturer d,
      entity_descriptions = sensor_descriptions d, entity_values = sensor_values d,
      binary_entity_values = binary_sensor_values d\<rparr>"

subsection \<open>\<open>_start_update\<close>: an advertisement\<close>

record service_info =
  manufacturer_data :: "int \<rightharpoonup> byte list"
  address :: string

text \<open>
  \<open>short_address\<close> comes from the library \<open>bluetooth_data_tools\<close>; it is the
  parameter \<open>short_address\<close> of the model.
\<close>

definition start_update ::
  "(string \<Rightarrow> string) \<Rightarrow> service_info \<Rightarrow> device_data \<Rightarrow> device_data" where
  "start_update short_address info self =
     (case manufacturer_data info SONICARE_MANUFACTURER of
        None \<Rightarrow> self
      | Some data \<Rightarrow>
          (let self1 = set_device_manufacturer ''Philips Sonicare'' self;
               msg_length = length data
           in if msg_length \<notin> set [9, 999] then self1
              else
                (let model = HX6340;
                     model_info = DEVICE_TYPES model;
                     self2 = set_device_type (model_device_type model_info) self1;
                     name = model_device_type model_info @ '' '' @ short_address (address info);
                     self3 = set_device_name name self2
                 in set_title name self3)))"

subsection \<open>\<open>poll_needed\<close>: the cadence decision\<close>

text \<open>
  \<open>monotonic\<close> is the value that \<open>time.monotonic()\<close> returns during the call.
\<close>

definition poll_needed ::
  "const \<Rightarrow> device_data \<Rightarrow> real \<Rightarrow> service_info \<Rightarrow> real option \<Rightarrow> bool" where
  "poll_needed c self monotonic info last_poll =
     (case last_poll of
        None \<Rightarrow> True
      | Some lp \<Rightarrow>
          (let update_interval = NOT_BRUSHING_UPDATE_INTERVAL_SECONDS c;
               update_interval' =
                 (if brushing self \<or> monotonic - last_brush self \<le> TIMEOUT_RECENTLY_BRUSHING c
                  then BRUSHING_UPDATE_INTERVAL_SECONDS c else update_interval)
           in lp > update_interval'))"

text \<open>
  The cadence rule in the words of the specification (section 4.4), for comparison
  with \<open>poll_needed\<close>: \<open>lastPollTimestamp\<close> is a point in time and the poll is due
  iff \<open>now - lastPollTimestamp\<close> exceeds the interval. The caller of
  \<open>poll_needed\<close> passes that difference, the age of the last poll, as \<open>last_poll\<close>.
\<close>

definition spec_isPollDue :: "const \<Rightarrow> real option \<Rightarrow> device_data \<Rightarrow> real \<Rightarrow> bool" where
  "spec_isPollDue c lastPollTimestamp state now =
     (case lastPollTimestamp of
        None \<Rightarrow> True
      | Some t \<Rightarrow>
          now - t >
            (if brushing state \<or> now - last_brush state \<le> TIMEOUT_RECENTLY_BRUSHING c
             then BRUSHING_UPDATE_INTERVAL_SECONDS c
             else NOT_BRUSHING_UPDATE_INTERVAL_SECONDS c))"

subsection \<open>\<open>process_characteristic_value\<close>: one characteristic value\<close>

text \<open>
  The chained conditional of the source, in its order. Each known branch evaluates
  \<open>value[0]\<close> before it calls \<open>update_sensor\<close>, so an \<open>IndexError\<close> leaves the
  device data as it was; the final branch only logs.
\<close>

definition process_characteristic_value ::
  "const \<Rightarrow> uuid \<Rightarrow> byte list \<Rightarrow> device_data \<Rightarrow> exn + device_data" where
  "process_characteristic_value c characteristic_uuid val self =
     (if characteristic_uuid = CHARACTERISTIC_BATTERY_LEVEL c then
        (case getitem val 0 of
           Inl e \<Rightarrow> Inl e
         | Inr b \<Rightarrow>
             Inr (update_sensor ''battery_level'' (Some PERCENTAGE) (IntVal (uint b))
                    (Some BATTERY) ''Battery'' self))
      else if characteristic_uuid = CHARACTERISTIC_UPDATED_HANDLE_SESSION_STATE c then
        (case getitem val 0 of
           Inl e \<Rightarrow> Inl e
         | Inr b \<Rightarrow>
             (let state = dict_get STATES (uint b) (''unknown state value '' @ str_int (uint b))
              in Inr (update_sensor ''handle_session_state'' None (StrVal state)
                        None ''Handle session state'' self)))
      else if characteristic_uuid = CHARACTERISTIC_BRUSHING_TIME c then
        (case getitem val 0 of
           Inl e \<Rightarrow> Inl e
         | Inr b \<Rightarrow>
             Inr (update_sensor ''brushing_time'' None (IntVal (uint b))
                    None ''Brushing time'' self))
      else if characteristic_uuid = CHARACTERISTIC_AVAILABLE_BRUSHING_ROUTINE_4080 c then
        (case getitem val 0 of
           Inl e \<Rightarrow> Inl e
         | Inr b \<Rightarrow>
             Inr (update_sensor ''available_brushing_routine'' None (IntVal (uint b))
                    None ''Available brushing routine'' self))
      else if characteristic_uuid = CHARACTERISTIC_ROUTINE_LENGTH c then
        (case getitem val 0 of
           Inl e \<Rightarrow> Inl e
         | Inr b \<Rightarrow>
             Inr (update_sensor ''routine_length'' None (IntVal (uint b))
                    None ''Routine length'' self))
      else if characteristic_uuid = CHARACTERISTIC_INTENSITY c then
        (case getitem val 0 of
           Inl e \<Rightarrow> Inl e
         | Inr b \<Rightarrow>
             Inr (update_sensor ''intensity'' None (IntVal (uint b))
                    None ''Intensity'' self))
      else if characteristic_uuid = CHARACTERISTIC_LOADED_SESSION_ID c then
        (case getitem val 0 of
           Inl e \<Rightarrow> Inl e
         | Inr b \<Rightarrow>
             Inr (update_sensor ''loaded_session_id'' None (IntVal (uint b))
                    None ''Loaded session id'' self))
      else Inr self)"

subsection \<open>\<open>async_poll\<close>: one poll cycle\<close>

text \<open>
  What the BLE client answers for one characteristic of the enumeration: the
  properties of the characteristic that \<open>get_characteristic\<close> finds (or the exception
  of that step), the result of \<open>read_gatt_char\<close>, and the outcome of the
  \<open>start_notify\<close> call made for \<open>indicate\<close> and of the one made for \<open>notify\<close>
  (\<open>None\<close>: the call returns). A field is consulted only if the code makes that call.
\<close>

record gatt_characteristic =
  char_uuid :: uuid
  char_properties :: "exn + string list"
  read_gatt_char :: "exn + byte list"
  start_notify_indicate :: "exn option"
  start_notify_notify :: "exn option"

record gatt_service =
  characteristics :: "gatt_characteristic list"

record client =
  services :: "gatt_service list"

text \<open>
  The body of the \<open>try\<close> statement: the exception that escapes it, if any, and the
  device data at that moment (a value recorded before a later call fails stays
  recorded).
\<close>

definition try_body ::
  "const \<Rightarrow> gatt_characteristic \<Rightarrow> device_data \<Rightarrow> exn option \<times> device_data" where
  "try_body c characteristic self =
     (case char_properties characteristic of
        Inl e \<Rightarrow> (Some e, self)
      | Inr properties \<Rightarrow>
          (case (if ''read'' \<in> set properties then
                   (case read_gatt_char characteristic of
                      Inl e \<Rightarrow> (Some e, self)
                    | Inr val \<Rightarrow>
                        (case process_characteristic_value c (char_uuid characteristic) val self of
                           Inl e \<Rightarrow> (Some e, self)
                         | Inr self' \<Rightarrow> (None, self')))
                 else (None, self)) of
             (Some e, self1) \<Rightarrow> (Some e, self1)
           | (None, self1) \<Rightarrow>
               (case (if ''indicate'' \<in> set properties
                      then start_notify_indicate characteristic else None) of
                  Some e \<Rightarrow> (Some e, self1)
                | None \<Rightarrow>
                    (case (if ''notify'' \<in> set properties
                           then start_notify_notify characteristic else None) of
                       Some e \<Rightarrow> (Some e, self1)
                     | None \<Rightarrow> (None, self1)))))"

text \<open>\<open>try: ... except Exception:\<close> logs and goes on to the next characteristic.\<close>

definition poll_characteristic ::
  "const \<Rightarrow> gatt_characteristic \<Rightarrow> device_data \<Rightarrow> device_data" where
  "poll_characteristic c characteristic self = snd (try_body c characteristic self)"

primrec poll_characteristics ::
  "const \<Rightarrow> gatt_characteristic list \<Rightarrow> device_data \<Rightarrow> device_data" where
  "poll_characteristics c [] self = self"
| "poll_characteristics c (characteristic # rest) self =
     poll_characteristics c rest (poll_characteristic c characteristic self)"

primrec poll_services :: "const \<Rightarrow> gatt_service list \<Rightarrow> device_data \<Rightarrow> device_data" where
  "poll_services c [] self = self"
| "poll_services c (service # rest) self =
     poll_services c rest (poll_characteristics c (characteristics service) self)"

text \<open>
  \<open>establish_connection\<close> either raises, and the exception leaves \<open>async_poll\<close>, or
  yields the client. The result is the snapshot together with the device data after
  the cycle.
\<close>

definition async_poll ::
  "const \<Rightarrow> exn + client \<Rightarrow> device_data \<Rightarrow> exn + sensor_update \<times> device_data" where
  "async_poll c establish_connection self =
     (case establish_connection of
        Inl e \<Rightarrow> Inl e
      | Inr cl \<Rightarrow>
          (let self' = poll_services c (services cl) self
           in Inr (finish_update self', self')))"

subsection \<open>Sequences of operations on one object\<close>

text \<open>
  The ways the device data of one object changes: an advertisement, a poll cycle, and
  a notification delivered to the callback \<open>_async_handle_handle_state\<close>, which
  forwards to \<open>process_characteristic_value\<close> (an exception there leaves the callback
  and the data is as before).
\<close>

datatype operation =
  Advertisement service_info
| Poll "exn + client"
| Notification uuid "byte list"

definition apply_operation ::
  "const \<Rightarrow> (string \<Rightarrow> string) \<Rightarrow> operation \<Rightarrow> device_data \<Rightarrow> device_data" where
  "apply_operation c short_address op self =
     (case op of
        Advertisement info \<Rightarrow> start_update short_address info self
      | Poll conn \<Rightarrow>
          (case async_poll c conn self of Inl e \<Rightarrow> self | Inr (snapshot, self') \<Rightarrow> self')
      | Notification characteristic_uuid val \<Rightarrow>
          (case process_characteristic_value c characteristic_uuid val self of
             Inl e \<Rightarrow> self
           | Inr self' \<Rightarrow> self'))"

primrec apply_operations ::
  "const \<Rightarrow> (string \<Rightarrow> string) \<Rightarrow> operation list \<Rightarrow> device_data \<Rightarrow> device_data" where
  "apply_operations c short_address [] self = self"
| "apply_operations c short_address (op # ops) self =
     apply_operations c short_address ops (apply_operation c short_address op self)"

subsection \<open>Sample parameters for concrete evaluation\<close>

text \<open>
  One choice of pairwise distinct characteristic identifiers and of cadence constants
  (idle interval 60 s, recent-brushing window 5 s, brushing interval 10 s), and one
  short form of an address (its last five characters), used where a statement is
  evaluated on a concrete input.
\<close>

definition sample_const :: const where
  "sample_const =
     \<lparr>CHARACTERISTIC_BATTERY_LEVEL = ''2a19'',
      CHARACTERISTIC_BRUSHING_TIME = ''4090'',
      CHARACTERISTIC_UPDATED_HANDLE_SESSION_STATE = ''4010'',
      CHARACTERISTIC_LOADED_SESSION_ID = ''4070'',
      CHARACTERISTIC_AVAILABLE_BRUSHING_ROUTINE_4080 = ''4080'',
      CHARACTERISTIC_INTENSITY = ''40b0'',
      CHARACTERISTIC_ROUTINE_LENGTH = ''4091'',
      NOT_BRUSHING_UPDATE_INTERVAL_SECONDS = 60,
      TIMEOUT_RECENTLY_BRUSHING = 5,
      BRUSHING_UPDATE_INTERVAL_SECONDS = 10\<rparr>"

definition sample_short_address :: "string \<Rightarrow> string" where
  "sample_short_address a = drop (length a - 5) a"

definition sample_info :: "byte list \<Rightarrow> service_info" where
  "sample_info blob =
     \<lparr>manufacturer_data = [SONICARE_MANUFACTURER \<mapsto> blob],
      address = ''AA:BB:CC:DD:EE:FF''\<rparr>"

text \<open>
  A poll scenario: the read of the battery characteristic raises, the read of the
  handle session state yields the byte 2, and the subscription that follows fails.
\<close>

definition battery_read_fails :: gatt_characteristic where
  "battery_read_fails =
     \<lparr>char_uuid = ''2a19'', char_properties = Inr [''read'', ''notify''],
      read_gatt_char = Inl (TransportError ''read failed''),
      start_notify_indicate = None, start_notify_notify = None\<rparr>"

definition state_reads_brushing :: gatt_characteristic where
  "state_reads_brushing =
     \<lparr>char_uuid = ''4010'', char_properties = Inr [''read'', ''notify''],
      read_gatt_char = Inr [2],
      start_notify_indicate = None, start_notify_notify = Some (TransportError ''busy'')\<rparr>"

section \<open>Properties\<close>

subsection \<open>Auxiliary facts\<close>

lemma getitem_first: "val \<noteq> [] \<Longrightarrow> getitem val 0 = Inr (hd val)"
  by (cases val) (simp_all add: getitem_def)

lemma getitem_empty: "getitem [] 0 = Inl IndexError"
  by (simp add: getitem_def)

lemma states_lookup:
  "dict_get STATES n dflt =
     (if n = 0 then ''off''
      else if n = 1 then ''standby''
      else if n = 2 then ''brushing''
      else if n = 3 then ''charging''
      else if n = 4 then ''shutdown''
      else if n = 5 then ''validate''
      else if n = 6 then ''unknown6''
      else if n = 7 then ''unknown7''
      else dflt)"
  by (simp add: dict_get_def STATES_def)

text \<open>A known characteristic with an empty value raises \<open>IndexError\<close>.\<close>

lemma empty_value_raises:
  "characteristic_uuid \<in> set (known_characteristics c) \<Longrightarrow>
     process_characteristic_value c characteristic_uuid [] self = Inl IndexError"
  by (auto simp add: process_characteristic_value_def getitem_def known_characteristics_def)

text \<open>
  Decoding a characteristic value writes the two sensor dictionaries and nothing else.
\<close>

lemma process_characteristic_value_frame:
  "process_characteristic_value c u v d = Inr d' \<Longrightarrow>
     binary_sensor_values d' = binary_sensor_values d \<and> brushing d' = brushing d \<and>
     last_brush d' = last_brush d \<and> title d' = title d \<and>
     device_name d' = device_name d \<and> device_type d' = device_type d \<and>
     device_manufacturer d' = device_manufacturer d"
  by (auto simp: process_characteristic_value_def update_sensor_def Let_def
      split: if_splits sum.splits)

lemma start_update_binary:
  "binary_sensor_values (start_update sa info d) = binary_sensor_values d"
  by (simp add: start_update_def Let_def set_device_manufacturer_def set_device_type_def
      set_device_name_def set_title_def split: option.splits)

text \<open>
  One characteristic of a poll either leaves the device data as it is or records
  exactly the value that its read returned.
\<close>

lemma poll_characteristic_cases:
  "poll_characteristic c ch d = d \<or>
   (\<exists>val. read_gatt_char ch = Inr val \<and>
      process_characteristic_value c (char_uuid ch) val d = Inr (poll_characteristic c ch d))"
  by (auto simp: poll_characteristic_def try_body_def split: sum.splits option.splits)

lemma poll_characteristic_binary:
  "binary_sensor_values (poll_characteristic c ch d) = binary_sensor_values d"
  using poll_characteristic_cases [of c ch d] process_characteristic_value_frame
  by metis

lemma poll_characteristics_binary:
  "binary_sensor_values (poll_characteristics c chs d) = binary_sensor_values d"
  by (induction chs arbitrary: d) (simp_all add: poll_characteristic_binary)

lemma poll_services_binary:
  "binary_sensor_values (poll_services c ss d) = binary_sensor_values d"
  by (induction ss arbitrary: d) (simp_all add: poll_characteristics_binary)

lemma apply_operation_binary:
  "binary_sensor_values (apply_operation c sa op d) = binary_sensor_values d"
proof (cases op)
  case (Advertisement info)
  then show ?thesis by (simp add: apply_operation_def start_update_binary)
next
  case (Poll conn)
  then show ?thesis
    by (cases conn) (simp_all add: apply_operation_def async_poll_def Let_def poll_services_binary)
next
  case (Notification u v)
  then show ?thesis
    by (auto simp: apply_operation_def split: sum.splits
        dest: process_characteristic_value_frame)
qed

lemma apply_operations_binary:
  "binary_sensor_values (apply_operations c sa ops d) = binary_sensor_values d"
  by (induction ops arbitrary: d) (simp_all add: apply_operation_binary)

lemma poll_characteristics_append:
  "poll_characteristics c (xs @ ys) d = poll_characteristics c ys (poll_characteristics c xs d)"
  by (induction xs arbitrary: d) simp_all

lemma poll_services_append:
  "poll_services c (xs @ ys) d = poll_services c ys (poll_services c xs d)"
  by (induction xs arbitrary: d) simp_all

subsection \<open>Advertisements\<close>

text \<open>
  C1, as the code has it. An advertisement without manufacturer id 477 changes nothing
  in the device data. An advertisement whose blob under 477 has a length other than 9
  and 999 sets the device manufacturer to \<open>Philips Sonicare\<close>, which
  \<open>_start_update\<close> does before it checks the length, and changes nothing else: no
  device type, no name, no title, no reading.
\<close>

theorem start_update_rejected:
  "(manufacturer_data info SONICARE_MANUFACTURER = None \<longrightarrow>
      start_update short_address info self = self) \<and>
   (manufacturer_data info SONICARE_MANUFACTURER = Some data \<and>
      length data \<noteq> 9 \<and> length data \<noteq> 999 \<longrightarrow>
      start_update short_address info self =
        self\<lparr>device_manufacturer := Some ''Philips Sonicare''\<rparr>)"
  by (simp add: start_update_def set_device_manufacturer_def Let_def)

text \<open>
  Both cases on concrete advertisements: one that carries only another vendor's id,
  and one with a three-byte blob under 477.
\<close>

theorem start_update_rejected_witness:
  "start_update sample_short_address
      \<lparr>manufacturer_data = [76 \<mapsto> [2, 21]], address = ''AA:BB:CC:DD:EE:FF''\<rparr> init = init \<and>
   start_update sample_short_address (sample_info [1, 2, 3]) init =
      init\<lparr>device_manufacturer := Some ''Philips Sonicare''\<rparr>"
  using start_update_rejected
      [of "\<lparr>manufacturer_data = [76 \<mapsto> [2, 21]], address = ''AA:BB:CC:DD:EE:FF''\<rparr>"
        sample_short_address init "[]"]
    start_update_rejected [of "sample_info [1, 2, 3]" sample_short_address init "[1, 2, 3]"]
  by (simp add: sample_info_def SONICARE_MANUFACTURER_def)

text \<open>
  C1 as worded (no mutation at all when the length is wrong) fails: a three-byte blob
  under id 477 is rejected by the length check, yet the device data differs from what
  it was, the manufacturer now being set.
\<close>

theorem start_update_inert_counterexample:
  "manufacturer_data (sample_info [1, 2, 3]) 477 = Some [1, 2, 3] \<and>
   length [1, 2, 3 :: byte] \<noteq> 9 \<and> length [1, 2, 3 :: byte] \<noteq> 999 \<and>
   start_update sample_short_address (sample_info [1, 2, 3]) init \<noteq> init \<and>
   device_manufacturer (start_update sample_short_address (sample_info [1, 2, 3]) init) =
     Some ''Philips Sonicare'' \<and>
   device_manufacturer init = None"
  by (simp add: start_update_def set_device_manufacturer_def Let_def sample_info_def
      SONICARE_MANUFACTURER_def init_def)

subsection \<open>The cadence state and the cadence decision\<close>

text \<open>
  C2, evaluated on the code. Decoding the handle session state byte 2 on a fresh
  object records the reading \<open>brushing\<close>, and the cadence state is what \<open>__init__\<close>
  set: the brushing flag is still false and the last-brushing time still \<open>0.0\<close>.
\<close>

theorem handle_session_state_keeps_cadence_state:
  "(case process_characteristic_value sample_const
           (CHARACTERISTIC_UPDATED_HANDLE_SESSION_STATE sample_const) [2] init of
      Inl e \<Rightarrow> False
    | Inr self' \<Rightarrow>
        map_of (sensor_values self') ''handle_session_state'' =
          Some \<lparr>sensor_name = ''Handle session state'', native_value = StrVal ''brushing''\<rparr> \<and>
        brushing self' = False \<and> last_brush self' = 0)"
  by (simp add: process_characteristic_value_def sample_const_def getitem_def dict_get_def
      STATES_def update_sensor_def init_def)

text \<open>
  What \<open>poll_needed\<close> does with a \<open>last_poll\<close> argument that is present: the
  argument is the time elapsed since the last poll, as the caller supplies it, and it
  is compared with the interval as it is.
\<close>

lemma poll_needed_elapsed:
  "poll_needed c self monotonic info (Some elapsed) =
     (elapsed >
        (if brushing self \<or> monotonic - last_brush self \<le> TIMEOUT_RECENTLY_BRUSHING c
         then BRUSHING_UPDATE_INTERVAL_SECONDS c
         else NOT_BRUSHING_UPDATE_INTERVAL_SECONDS c))"
  by (simp add: poll_needed_def Let_def)

text \<open>
  C3. For a last poll at time \<open>lastPollTimestamp\<close>, that is with the elapsed time
  \<open>now - lastPollTimestamp\<close> as the \<open>last_poll\<close> argument, every cadence state and
  every \<open>now\<close>: the poll is due iff \<open>now - lastPollTimestamp\<close> exceeds the interval,
  which is the brushing interval when the brushing flag is set or the time since the
  last brushing is at most the recent-brushing timeout (the boundary included), and
  the idle interval otherwise. With the elapsed time so supplied, \<open>poll_needed\<close>
  agrees with the rule of the specification on every input, a never-polled device
  included.
\<close>

theorem poll_needed_due:
  "poll_needed c self now info (Some (now - lastPollTimestamp)) =
     (now - lastPollTimestamp >
        (if brushing self \<or> now - last_brush self \<le> TIMEOUT_RECENTLY_BRUSHING c
         then BRUSHING_UPDATE_INTERVAL_SECONDS c
         else NOT_BRUSHING_UPDATE_INTERVAL_SECONDS c)) \<and>
   poll_needed c self now info (map_option ((-) now) lastPoll) =
     spec_isPollDue c lastPoll self now"
  by (cases lastPoll) (simp_all add: poll_needed_def spec_isPollDue_def Let_def)

text \<open>
  The boundary of the recent-brushing window at clock 1000, last poll at 989: exactly
  5 s after the last brushing the brushing interval of 10 s applies and the 11 s since
  the last poll make it due; one second later the idle interval of 60 s applies and
  they do not.
\<close>

theorem poll_needed_due_witness:
  "poll_needed sample_const (init\<lparr>last_brush := 995\<rparr>) 1000 (sample_info []) (Some 11) = True \<and>
   poll_needed sample_const (init\<lparr>last_brush := 994\<rparr>) 1000 (sample_info []) (Some 11) = False \<and>
   spec_isPollDue sample_const (Some 989) (init\<lparr>last_brush := 995\<rparr>) 1000 = True"
proof -
  have a: "poll_needed sample_const (init\<lparr>last_brush := 995\<rparr>) 1000 (sample_info []) (Some 11)"
    using poll_needed_due
      [of sample_const "init\<lparr>last_brush := 995\<rparr>" 1000 "sample_info []" 989, THEN conjunct1]
    by (simp add: sample_const_def init_def)
  have b: "\<not> poll_needed sample_const (init\<lparr>last_brush := 994\<rparr>) 1000 (sample_info []) (Some 11)"
    using poll_needed_due
      [of sample_const "init\<lparr>last_brush := 994\<rparr>" 1000 "sample_info []" 989, THEN conjunct1]
    by (simp add: sample_const_def init_def)
  have c: "poll_needed sample_const (init\<lparr>last_brush := 995\<rparr>) 1000 (sample_info []) (Some 11) =
      spec_isPollDue sample_const (Some 989) (init\<lparr>last_brush := 995\<rparr>) 1000"
    using poll_needed_due
      [of sample_const "init\<lparr>last_brush := 995\<rparr>" 1000 "sample_info []" _ "Some 989",
        THEN conjunct2]
    by simp
  from a b c show ?thesis by simp
qed

text \<open>
  C6. When the \<open>last_poll\<close> argument is absent (the device has never been polled),
  \<open>poll_needed\<close> answers true, for every cadence state, every clock value and every
  choice of the cadence constants.
\<close>

theorem poll_needed_never_polled:
  "poll_needed c self monotonic info None = True"
  by (simp add: poll_needed_def)

subsection \<open>Decoding characteristic values\<close>

text \<open>
  C5. For a non-empty value, the handle session state characteristic records the label
  that the table gives for the first byte, 0 to 7, and for every other byte the label
  \<open>unknown state value n\<close> with \<open>n\<close> in decimal; no byte makes the decoding fail.
  The identifier of the characteristic must differ from the battery level's, which the
  dispatch tests first.
\<close>

theorem handle_session_state_decoding:
  assumes "val \<noteq> []"
    and "CHARACTERISTIC_UPDATED_HANDLE_SESSION_STATE c \<noteq> CHARACTERISTIC_BATTERY_LEVEL c"
  shows "process_characteristic_value c (CHARACTERISTIC_UPDATED_HANDLE_SESSION_STATE c) val self =
      Inr (update_sensor ''handle_session_state'' None
             (StrVal
                (if uint (hd val) = 0 then ''off''
                 else if uint (hd val) = 1 then ''standby''
                 else if uint (hd val) = 2 then ''brushing''
                 else if uint (hd val) = 3 then ''charging''
                 else if uint (hd val) = 4 then ''shutdown''
                 else if uint (hd val) = 5 then ''validate''
                 else if uint (hd val) = 6 then ''unknown6''
                 else if uint (hd val) = 7 then ''unknown7''
                 else ''unknown state value '' @ str_int (uint (hd val))))
             None ''Handle session state'' self)"
  using assms
  by (simp add: process_characteristic_value_def getitem_first states_lookup)

text \<open>The values \<open>[2]\<close>, \<open>[9]\<close> and a two-byte value starting with 200.\<close>

theorem handle_session_state_decoding_witness:
  "process_characteristic_value sample_const ''4010'' [2] init =
     Inr (update_sensor ''handle_session_state'' None (StrVal ''brushing'')
            None ''Handle session state'' init) \<and>
   process_characteristic_value sample_const ''4010'' [9] init =
     Inr (update_sensor ''handle_session_state'' None (StrVal ''unknown state value 9'')
            None ''Handle session state'' init) \<and>
   process_characteristic_value sample_const ''4010'' [200, 1] init =
     Inr (update_sensor ''handle_session_state'' None (StrVal ''unknown state value 200'')
            None ''Handle session state'' init)"
  using handle_session_state_decoding [of "[2]" sample_const init]
    handle_session_state_decoding [of "[9]" sample_const init]
    handle_session_state_decoding [of "[200, 1]" sample_const init]
  by (simp add: sample_const_def str_int_def str_nat.simps digit_char_def)

text \<open>
  C7. A characteristic identifier outside the known set is ignored: whatever the value,
  the call returns without an exception and the device data, every sensor and binary
  sensor entry included, is what it was.
\<close>

theorem unknown_characteristic_ignored:
  "characteristic_uuid \<notin> set (known_characteristics c) \<Longrightarrow>
     process_characteristic_value c characteristic_uuid val self = Inr self"
  by (simp add: known_characteristics_def process_characteristic_value_def)

theorem unknown_characteristic_ignored_witness:
  "''ffff'' \<notin> set (known_characteristics sample_const) \<and>
   process_characteristic_value sample_const ''ffff'' [7] init = Inr init"
proof -
  have h: "''ffff'' \<notin> set (known_characteristics sample_const)"
    by (simp add: known_characteristics_def sample_const_def)
  from unknown_characteristic_ignored [OF h, of "[7]" init] h show ?thesis by simp
qed

text \<open>
  C8. The battery level characteristic with value \<open>[80]\<close> records, under the key
  \<open>battery_level\<close>, the value 80 with unit percentage and device class battery, and
  the snapshot shows it. An advertisement with a blob of 9 bytes under manufacturer id
  477 sets the title and the device name to the model string \<open>HX6340\<close>, a space and
  the short form of the address, and sets the device type and the manufacturer.
\<close>

theorem battery_and_identity:
  "(case process_characteristic_value c (CHARACTERISTIC_BATTERY_LEVEL c) [80] self of
      Inl e \<Rightarrow> False
    | Inr self' \<Rightarrow>
        map_of (entity_values (finish_update self')) ''battery_level'' =
          Some \<lparr>sensor_name = ''Battery'', native_value = IntVal 80\<rparr> \<and>
        map_of (entity_descriptions (finish_update self')) ''battery_level'' =
          Some \<lparr>device_class = Some BATTERY, native_unit_of_measurement = Some PERCENTAGE\<rparr>) \<and>
   (manufacturer_data info SONICARE_MANUFACTURER = Some blob \<and> length blob = 9 \<longrightarrow>
      title (start_update short_address info self) =
        Some (''HX6340'' @ '' '' @ short_address (address info)) \<and>
      device_name (start_update short_address info self) =
        Some (''HX6340'' @ '' '' @ short_address (address info)) \<and>
      device_type (start_update short_address info self) = Some ''HX6340'' \<and>
      device_manufacturer (start_update short_address info self) = Some ''Philips Sonicare'')"
  by (simp add: process_characteristic_value_def getitem_def update_sensor_def
      finish_update_def update_conv start_update_def Let_def DEVICE_TYPES_def
      set_device_manufacturer_def set_device_type_def set_device_name_def set_title_def)

text \<open>Nine zero bytes from the address \<open>AA:BB:CC:DD:EE:FF\<close>.\<close>

theorem battery_and_identity_witness:
  "title (start_update sample_short_address (sample_info [0, 0, 0, 0, 0, 0, 0, 0, 0]) init) =
     Some ''HX6340 EE:FF'' \<and>
   update_title (finish_update
      (start_update sample_short_address (sample_info [0, 0, 0, 0, 0, 0, 0, 0, 0]) init)) =
     Some ''HX6340 EE:FF''"
  using battery_and_identity [of sample_const init "sample_info [0, 0, 0, 0, 0, 0, 0, 0, 0]"
      "[0, 0, 0, 0, 0, 0, 0, 0, 0]" sample_short_address]
  by (simp add: sample_info_def sample_short_address_def finish_update_def)

text \<open>
  C9. For a known characteristic and a non-empty value, the one index that the
  decoding reads, index 0, is in range, the decoding returns without an exception, and
  any other non-empty value with the same first byte is decoded to the same result.
\<close>

theorem decode_reads_first_byte_only:
  assumes "val \<noteq> []"
    and "characteristic_uuid \<in> set (known_characteristics c)"
  shows "getitem val 0 = Inr (hd val) \<and>
    (\<exists>self'. process_characteristic_value c characteristic_uuid val self = Inr self') \<and>
    (val' \<noteq> [] \<and> hd val' = hd val \<longrightarrow>
       process_characteristic_value c characteristic_uuid val' self =
       process_characteristic_value c characteristic_uuid val self)"
  using assms
  by (simp add: process_characteristic_value_def getitem_first)

theorem decode_reads_first_byte_only_witness:
  "(\<exists>self'. process_characteristic_value sample_const ''40b0'' [3, 9, 9] init = Inr self') \<and>
   process_characteristic_value sample_const ''40b0'' [3] init =
     process_characteristic_value sample_const ''40b0'' [3, 9, 9] init"
  using decode_reads_first_byte_only [of "[3, 9, 9]" "''40b0''" sample_const init "[3]"]
  by (simp add: known_characteristics_def sample_const_def)

subsection \<open>The poll cycle\<close>

text \<open>
  C4. A failure to establish the connection is the result of the poll. Once the
  connection stands, the poll returns a snapshot whatever the characteristics do: for
  a characteristic anywhere in the enumeration, the characteristics and services after
  it are processed from the data it leaves and the snapshot is taken from the outcome.
  A characteristic whose lookup or read raises leaves the device data as it was.
\<close>

theorem async_poll_fault_isolation:
  "async_poll c (Inl e) self = Inl e \<and>
   (\<exists>snapshot self'. async_poll c (Inr cl) self = Inr (snapshot, self')) \<and>
   async_poll c (Inr \<lparr>services = sb @ \<lparr>characteristics = cb @ ch # ca\<rparr> # sa\<rparr>) self =
     (let self1 = poll_characteristics c cb (poll_services c sb self);
          self2 = poll_characteristic c ch self1;
          self3 = poll_services c sa (poll_characteristics c ca self2)
      in Inr (finish_update self3, self3)) \<and>
   (char_properties ch = Inl e' \<longrightarrow> poll_characteristic c ch self = self) \<and>
   (char_properties ch = Inr props \<and> ''read'' \<in> set props \<and> read_gatt_char ch = Inl e' \<longrightarrow>
      poll_characteristic c ch self = self)"
  by (simp add: async_poll_def Let_def poll_services_append poll_characteristics_append
      poll_characteristic_def try_body_def)

text \<open>
  The battery read raises and the handle session state reads \<open>[2]\<close>: the poll returns
  the snapshot with the reading \<open>brushing\<close> and no battery reading.
\<close>

theorem async_poll_fault_isolation_witness:
  "async_poll sample_const
      (Inr \<lparr>services = [\<lparr>characteristics = [battery_read_fails, state_reads_brushing]\<rparr>]\<rparr>) init =
     Inr (finish_update
            (update_sensor ''handle_session_state'' None (StrVal ''brushing'') None
               ''Handle session state'' init),
          update_sensor ''handle_session_state'' None (StrVal ''brushing'') None
               ''Handle session state'' init)"
  using async_poll_fault_isolation [of sample_const _ init _ "[]" "[]" battery_read_fails
      "[state_reads_brushing]" "[]" "TransportError ''read failed''" "[''read'', ''notify'']"]
  apply (simp add: Let_def)
  apply (simp add: battery_read_fails_def)
  apply (simp add: poll_characteristic_def try_body_def state_reads_brushing_def
      process_characteristic_value_def sample_const_def getitem_def dict_get_def STATES_def)
  done

subsection \<open>Binary sensors\<close>

text \<open>
  C10. Starting from a fresh object, after any sequence of advertisements, poll cycles
  and notifications the snapshot holds no binary sensor reading: none of these
  operations writes one.
\<close>

theorem no_binary_sensor_recorded:
  "binary_entity_values (finish_update (apply_operations c short_address ops init)) = []"
  by (simp add: finish_update_def apply_operations_binary init_def)

end
